theory Spec2Isabelle
  imports Main
begin

section \<open>Educational platform backend: data model\<close>

text \<open>
  The service keeps three MongoDB collections (\<open>users\<close>, \<open>courses\<close>,
  \<open>progress\<close>) and offers eight request handlers. Each handler is embedded as a
  function from the request and the store to the handler's outcome and the store it
  leaves behind. An outcome is \<open>Inr\<close> of the returned value or \<open>Inl\<close> of the
  exception the handler raises; the store is returned in both cases, since a handler may
  write before it raises.
\<close>

subsection \<open>Object ids\<close>

text \<open>
  A \<open>bson.ObjectId\<close> is a 12-byte value, written as 24 hexadecimal digits. It is
  modelled by the number those digits denote, so that two strings which differ only in
  the case of a digit give the same id, as they do in \<open>bson\<close>.

  \<open>ObjectId.is_valid\<close> hands a 24-character string to \<open>bytes.fromhex\<close>, which skips
  white space between pairs of digits, so it also accepts strings such as 16 digits and 8
  blanks. Such a string yields fewer than 12 bytes, which is the id of no document, and
  what the driver sends for it is not determined by this source. The model reports these
  strings as invalid: a statement below that assumes a validated id speaks of the strings
  of 24 hexadecimal digits, where the model and \<open>bson\<close> agree.
\<close>

type_synonym ObjectId = nat

definition is_hex_digit :: "char \<Rightarrow> bool" where
  "is_hex_digit c \<longleftrightarrow> c \<in> set ''0123456789abcdefABCDEF''"

definition hex_value :: "char \<Rightarrow> nat" where
  "hex_value c =
     (let n = (of_char c :: nat) in
      if 48 \<le> n \<and> n \<le> 57 then n - 48
      else if 97 \<le> n \<and> n \<le> 102 then n - 87
      else n - 55)"

text \<open>\<open>ObjectId.is_valid(v)\<close> for a string \<open>v\<close>: 24 hexadecimal digits.\<close>

definition ObjectId_is_valid :: "string \<Rightarrow> bool" where
  "ObjectId_is_valid v \<longleftrightarrow> length v = 24 \<and> list_all is_hex_digit v"

text \<open>\<open>ObjectId(v)\<close> for a valid string \<open>v\<close>.\<close>

definition ObjectId_of :: "string \<Rightarrow> ObjectId" where
  "ObjectId_of v = foldl (\<lambda>a c. 16 * a + hex_value c) 0 v"

subsection \<open>Exceptions\<close>

text \<open>
  \<open>HTTPException(status_code, detail)\<close> is what a handler raises on purpose.
  \<open>ValueError\<close> is raised by \<open>PyObjectId.validate\<close>, \<open>ValidationError\<close> by a
  pydantic model constructor whose argument does not fit the declared field type,
  \<open>TypeError\<close> by unpacking \<open>None\<close> as keyword arguments, and \<open>OverflowError\<close> by
  the driver's BSON encoder for an integer that does not fit 8 bytes.
\<close>

datatype error =
    HTTPException nat string
  | ValueError string
  | ValidationError string
  | TypeError string
  | OverflowError string

text \<open>
  \<^verbatim>\<open>
  def validate(cls, v):
      if not ObjectId.is_valid(v):
          raise ValueError("Invalid ObjectId")
      return ObjectId(v)
  \<close>
\<close>

definition PyObjectId_validate :: "string \<Rightarrow> error + ObjectId" where
  "PyObjectId_validate v =
     (if \<not> ObjectId_is_valid v then Inl (ValueError ''Invalid ObjectId'')
      else Inr (ObjectId_of v))"

subsection \<open>Documents and models\<close>

text \<open>
  A stored user document holds what \<open>create_user\<close> writes: the flag is taken from
  \<open>UserCreateRequest.is_instructor\<close>, which is \<open>Optional[bool]\<close>, so it may be
  \<open>None\<close>. The \<open>User\<close> model declares \<open>is_instructor: bool\<close>.
\<close>

record user_doc =
  user_oid :: ObjectId
  username :: string
  is_instructor :: "bool option"

record User =
  User_id :: ObjectId
  User_username :: string
  User_is_instructor :: bool

record QuizQuestion =
  question :: string
  options :: "string list"
  correct_option_index :: int

record Course =
  course_oid :: ObjectId
  title :: string
  description :: "string option"
  instructor_id :: ObjectId
  quizzes :: "QuizQuestion list"

record Progress =
  progress_oid :: ObjectId
  student_id :: ObjectId
  course_id :: ObjectId
  completed_quizzes :: "int list"
  assignments_completed :: bool

record UserCreateRequest =
  req_username :: string
  req_is_instructor :: "bool option"

record CourseCreateRequest =
  req_title :: string
  req_description :: "string option"
  instructor_username :: string

record EnrollRequest =
  student_username :: string

record CompleteQuizRequest =
  quiz_index :: int

text \<open>
  \<open>User(**user_doc)\<close>: pydantic accepts the document when the flag is a boolean and
  raises a validation error when it is \<open>None\<close>, the field being declared \<open>bool\<close>.
\<close>

definition User_of_doc :: "user_doc \<Rightarrow> error + User" where
  "User_of_doc d =
     (case is_instructor d of
        None \<Rightarrow> Inl (ValidationError ''is_instructor: none is not an allowed value'')
      | Some b \<Rightarrow>
          Inr \<lparr>User_id = user_oid d, User_username = username d, User_is_instructor = b\<rparr>)"

subsection \<open>The store\<close>

text \<open>
  A collection is the list of its documents in insertion order. \<open>insert_one\<close> appends
  a document under an \<open>_id\<close> no document has yet; the store keeps a counter for it.
\<close>

record db =
  users :: "user_doc list"
  courses :: "Course list"
  progress :: "Progress list"
  next_id :: ObjectId

definition empty_db :: db where
  "empty_db = \<lparr>users = [], courses = [], progress = [], next_id = 0\<rparr>"

text \<open>
  A document is sent to the store in BSON, whose integers are signed and at most 64 bits
  wide. A Python \<open>int\<close> outside that range makes the encoder raise \<open>OverflowError\<close>
  before anything is sent, so the store is not changed.
\<close>

definition bson_int :: "int \<Rightarrow> bool" where
  "bson_int i \<longleftrightarrow> - 9223372036854775808 \<le> i \<and> i \<le> 9223372036854775807"

definition bson_overflow :: error where
  "bson_overflow = OverflowError ''MongoDB can only handle up to 8-byte ints''"

text \<open>\<open>find_one(query)\<close>: the first document that matches, or \<open>None\<close>.\<close>

fun find_one :: "('a \<Rightarrow> bool) \<Rightarrow> 'a list \<Rightarrow> 'a option" where
  "find_one q [] = None"
| "find_one q (d # ds) = (if q d then Some d else find_one q ds)"

text \<open>\<open>update_one(query, update)\<close>: the first document that matches is updated.\<close>

fun update_one :: "('a \<Rightarrow> bool) \<Rightarrow> ('a \<Rightarrow> 'a) \<Rightarrow> 'a list \<Rightarrow> 'a list" where
  "update_one q f [] = []"
| "update_one q f (d # ds) = (if q d then f d # ds else d # update_one q f ds)"

section \<open>Request handlers\<close>

text \<open>
  \<^verbatim>\<open>
  async def create_user(user: UserCreateRequest):
      existing = await db.users.find_one({"username": user.username})
      if existing:
          raise HTTPException(status_code=400, detail="Username already exists")
      user_doc = {"username": user.username, "is_instructor": user.is_instructor}
      result = await db.users.insert_one(user_doc)
      user_doc["_id"] = result.inserted_id
      return User(**user_doc)
  \<close>
\<close>

definition create_user :: "UserCreateRequest \<Rightarrow> db \<Rightarrow> (error + User) \<times> db" where
  "create_user user s =
     (case find_one (\<lambda>d. username d = req_username user) (users s) of
        Some existing \<Rightarrow> (Inl (HTTPException 400 ''Username already exists''), s)
      | None \<Rightarrow>
          (let user_doc = \<lparr>user_oid = next_id s, username = req_username user,
                           is_instructor = req_is_instructor user\<rparr>;
               s' = s\<lparr>users := users s @ [user_doc], next_id := Suc (next_id s)\<rparr>
           in (User_of_doc user_doc, s')))"

text \<open>
  \<^verbatim>\<open>
  async def create_course(course: CourseCreateRequest):
      instructor = await db.users.find_one(
          {"username": course.instructor_username, "is_instructor": True})
      if not instructor:
          raise HTTPException(status_code=403, detail="Only instructors can create courses")
      course_doc = {"title": course.title, "description": course.description,
                    "instructor_id": instructor["_id"], "quizzes": []}
      result = await db.courses.insert_one(course_doc)
      course_doc["_id"] = result.inserted_id
      return Course(**course_doc)
  \<close>
\<close>

definition create_course :: "CourseCreateRequest \<Rightarrow> db \<Rightarrow> (error + Course) \<times> db" where
  "create_course course s =
     (case find_one (\<lambda>d. username d = instructor_username course \<and> is_instructor d = Some True)
             (users s) of
        None \<Rightarrow> (Inl (HTTPException 403 ''Only instructors can create courses''), s)
      | Some instructor \<Rightarrow>
          (let course_doc = \<lparr>course_oid = next_id s, title = req_title course,
                             description = req_description course,
                             instructor_id = user_oid instructor, quizzes = []\<rparr>;
               s' = s\<lparr>courses := courses s @ [course_doc], next_id := Suc (next_id s)\<rparr>
           in (Inr course_doc, s')))"

text \<open>
  \<^verbatim>\<open>
  async def add_quiz(course_id: str, quiz: QuizQuestion):
      course_oid = PyObjectId.validate(course_id)
      course = await db.courses.find_one({"_id": course_oid})
      if not course:
          raise HTTPException(status_code=404, detail="Course not found")
      await db.courses.update_one({"_id": course_oid}, {"$push": {"quizzes": quiz.dict()}})
      updated = await db.courses.find_one({"_id": course_oid})
      return Course(**updated)
  \<close>
  The update document holds \<open>quiz.dict()\<close>, whose \<open>correct_option_index\<close> is the only
  integer in it: the encoder raises when it does not fit 64 bits.
  The branch for \<open>None\<close> after the update is the failure of \<open>Course(**None)\<close>.
  It is never taken: a course found under the id before the update is found under it
  afterwards (\<open>find_one_same_key_update\<close> below).
\<close>

definition add_quiz :: "string \<Rightarrow> QuizQuestion \<Rightarrow> db \<Rightarrow> (error + Course) \<times> db" where
  "add_quiz cid quiz s =
     (case PyObjectId_validate cid of
        Inl e \<Rightarrow> (Inl e, s)
      | Inr oid \<Rightarrow>
          (case find_one (\<lambda>c. course_oid c = oid) (courses s) of
             None \<Rightarrow> (Inl (HTTPException 404 ''Course not found''), s)
           | Some course \<Rightarrow>
               if \<not> bson_int (correct_option_index quiz) then (Inl bson_overflow, s)
               else
                 (let s' = s\<lparr>courses := update_one (\<lambda>c. course_oid c = oid)
                                           (\<lambda>c. c\<lparr>quizzes := quizzes c @ [quiz]\<rparr>) (courses s)\<rparr>
                  in (case find_one (\<lambda>c. course_oid c = oid) (courses s') of
                        None \<Rightarrow> (Inl (TypeError ''argument after ** must be a mapping''), s')
                      | Some updated \<Rightarrow> (Inr updated, s')))))"

text \<open>
  \<^verbatim>\<open>
  async def list_courses():
      courses = []
      cursor = db.courses.find()
      async for course in cursor:
          courses.append(Course(**course))
      return courses
  \<close>
\<close>

definition list_courses :: "db \<Rightarrow> (error + Course list) \<times> db" where
  "list_courses s = (Inr (courses s), s)"

text \<open>
  \<^verbatim>\<open>
  async def enroll_student(course_id: str, enroll_req: EnrollRequest):
      student = await db.users.find_one(
          {"username": enroll_req.student_username, "is_instructor": False})
      if not student:
          raise HTTPException(status_code=404, detail="Student not found")
      course_oid = PyObjectId.validate(course_id)
      progress = await db.progress.find_one(
          {"student_id": student["_id"], "course_id": course_oid})
      if progress:
          return Progress(**progress)
      prog_doc = {"student_id": student["_id"], "course_id": course_oid,
                  "completed_quizzes": [], "assignments_completed": False}
      result = await db.progress.insert_one(prog_doc)
      prog_doc["_id"] = result.inserted_id
      return Progress(**prog_doc)
  \<close>
\<close>

definition find_student :: "string \<Rightarrow> db \<Rightarrow> user_doc option" where
  "find_student name s =
     find_one (\<lambda>d. username d = name \<and> is_instructor d = Some False) (users s)"

definition find_progress :: "ObjectId \<Rightarrow> ObjectId \<Rightarrow> db \<Rightarrow> Progress option" where
  "find_progress sid oid s =
     find_one (\<lambda>p. student_id p = sid \<and> course_id p = oid) (progress s)"

definition enroll_student :: "string \<Rightarrow> EnrollRequest \<Rightarrow> db \<Rightarrow> (error + Progress) \<times> db" where
  "enroll_student cid enroll_req s =
     (case find_student (student_username enroll_req) s of
        None \<Rightarrow> (Inl (HTTPException 404 ''Student not found''), s)
      | Some student \<Rightarrow>
          (case PyObjectId_validate cid of
             Inl e \<Rightarrow> (Inl e, s)
           | Inr oid \<Rightarrow>
               (case find_progress (user_oid student) oid s of
                  Some prog \<Rightarrow> (Inr prog, s)
                | None \<Rightarrow>
                    (let prog_doc = \<lparr>progress_oid = next_id s, student_id = user_oid student,
                                     course_id = oid, completed_quizzes = [],
                                     assignments_completed = False\<rparr>;
                         s' = s\<lparr>progress := progress s @ [prog_doc],
                                next_id := Suc (next_id s)\<rparr>
                     in (Inr prog_doc, s')))))"

text \<open>
  The three progress handlers start alike: the student is looked up, then the path
  parameter is validated, then the progress record is looked up.
  \<^verbatim>\<open>
      student = await db.users.find_one({"username": student_username, "is_instructor": False})
      if not student:
          raise HTTPException(status_code=404, detail="Student not found")
      prog = await db.progress.find_one(
          {"student_id": student["_id"], "course_id": PyObjectId.validate(course_id)})
      if not prog:
          raise HTTPException(status_code=404, detail="Progress not found")
  \<close>
\<close>

definition lookup_progress :: "string \<Rightarrow> string \<Rightarrow> db \<Rightarrow> error + Progress" where
  "lookup_progress cid name s =
     (case find_student name s of
        None \<Rightarrow> Inl (HTTPException 404 ''Student not found'')
      | Some student \<Rightarrow>
          (case PyObjectId_validate cid of
             Inl e \<Rightarrow> Inl e
           | Inr oid \<Rightarrow>
               (case find_progress (user_oid student) oid s of
                  None \<Rightarrow> Inl (HTTPException 404 ''Progress not found'')
                | Some prog \<Rightarrow> Inr prog)))"

definition get_progress :: "string \<Rightarrow> string \<Rightarrow> db \<Rightarrow> (error + Progress) \<times> db" where
  "get_progress cid name s = (lookup_progress cid name s, s)"

text \<open>
  \<^verbatim>\<open>
      quizzes_done = prog.get("completed_quizzes", [])
      if complete_quiz_req.quiz_index not in quizzes_done:
          quizzes_done.append(complete_quiz_req.quiz_index)
          await db.progress.update_one(
              {"_id": prog["_id"]}, {"$set": {"completed_quizzes": quizzes_done}})
      return {"message": "Quiz marked complete"}
  \<close>
  The update document holds the whole list \<open>quizzes_done\<close>, the new index included: the
  encoder raises when one of its integers does not fit 64 bits.
\<close>

definition complete_quiz ::
    "string \<Rightarrow> string \<Rightarrow> CompleteQuizRequest \<Rightarrow> db \<Rightarrow> (error + string) \<times> db" where
  "complete_quiz cid name complete_quiz_req s =
     (case lookup_progress cid name s of
        Inl e \<Rightarrow> (Inl e, s)
      | Inr prog \<Rightarrow>
          (let quizzes_done = completed_quizzes prog in
           if quiz_index complete_quiz_req \<notin> set quizzes_done
           then
             (if \<not> list_all bson_int (quizzes_done @ [quiz_index complete_quiz_req])
              then (Inl bson_overflow, s)
              else (Inr ''Quiz marked complete'',
                    s\<lparr>progress := update_one (\<lambda>p. progress_oid p = progress_oid prog)
                        (\<lambda>p. p\<lparr>completed_quizzes := quizzes_done @ [quiz_index complete_quiz_req]\<rparr>)
                        (progress s)\<rparr>))
           else (Inr ''Quiz marked complete'', s)))"

text \<open>
  \<^verbatim>\<open>
      await db.progress.update_one({"_id": prog["_id"]}, {"$set": {"assignments_completed": True}})
      return {"message": "Assignment marked complete"}
  \<close>
\<close>

definition complete_assignment :: "string \<Rightarrow> string \<Rightarrow> db \<Rightarrow> (error + string) \<times> db" where
  "complete_assignment cid name s =
     (case lookup_progress cid name s of
        Inl e \<Rightarrow> (Inl e, s)
      | Inr prog \<Rightarrow>
          (Inr ''Assignment marked complete'',
           s\<lparr>progress := update_one (\<lambda>p. progress_oid p = progress_oid prog)
               (\<lambda>p. p\<lparr>assignments_completed := True\<rparr>) (progress s)\<rparr>))"

section \<open>Sequences of requests\<close>

text \<open>The eight operations, each with its request data.\<close>

datatype request =
    CreateUser UserCreateRequest
  | CreateCourse CourseCreateRequest
  | AddQuiz string QuizQuestion
  | ListCourses
  | EnrollStudent string EnrollRequest
  | GetProgress string string
  | CompleteQuiz string string CompleteQuizRequest
  | CompleteAssignment string string

text \<open>The store a request leaves behind, whether the handler returns or raises.\<close>

fun handle :: "request \<Rightarrow> db \<Rightarrow> db" where
  "handle (CreateUser user) s = snd (create_user user s)"
| "handle (CreateCourse course) s = snd (create_course course s)"
| "handle (AddQuiz cid quiz) s = snd (add_quiz cid quiz s)"
| "handle ListCourses s = snd (list_courses s)"
| "handle (EnrollStudent cid enroll_req) s = snd (enroll_student cid enroll_req s)"
| "handle (GetProgress cid name) s = snd (get_progress cid name s)"
| "handle (CompleteQuiz cid name r) s = snd (complete_quiz cid name r s)"
| "handle (CompleteAssignment cid name) s = snd (complete_assignment cid name s)"

text \<open>The store after a sequence of requests, served one after the other from an empty store.\<close>

definition run :: "request list \<Rightarrow> db" where
  "run rs = foldl (\<lambda>s r. handle r s) empty_db rs"

section \<open>Invariants of the data model\<close>

definition find_user :: "ObjectId \<Rightarrow> db \<Rightarrow> user_doc option" where
  "find_user oid s = find_one (\<lambda>d. user_oid d = oid) (users s)"

definition usernames_unique :: "db \<Rightarrow> bool" where
  "usernames_unique s \<longleftrightarrow> distinct (map username (users s))"

definition one_progress_per_pair :: "db \<Rightarrow> bool" where
  "one_progress_per_pair s \<longleftrightarrow>
     distinct (map (\<lambda>p. (student_id p, course_id p)) (progress s))"

definition owned_by_instructor :: "db \<Rightarrow> Course \<Rightarrow> bool" where
  "owned_by_instructor s c =
     (case find_user (instructor_id c) s of
        None \<Rightarrow> False
      | Some u \<Rightarrow> is_instructor u = Some True)"

definition belongs_to_student :: "db \<Rightarrow> Progress \<Rightarrow> bool" where
  "belongs_to_student s p =
     (case find_user (student_id p) s of
        None \<Rightarrow> False
      | Some u \<Rightarrow> is_instructor u = Some False)"

definition data_model_invariants :: "db \<Rightarrow> bool" where
  "data_model_invariants s \<longleftrightarrow>
     usernames_unique s \<and> one_progress_per_pair s \<and>
     list_all (owned_by_instructor s) (courses s) \<and>
     list_all (belongs_to_student s) (progress s)"

text \<open>
  What the store itself guarantees: the \<open>_id\<close> values of a collection are pairwise
  different, and every one of them was handed out before the next one to come.
\<close>

definition ids_unique :: "db \<Rightarrow> bool" where
  "ids_unique s \<longleftrightarrow>
     distinct (map user_oid (users s)) \<and> distinct (map course_oid (courses s)) \<and>
     distinct (map progress_oid (progress s))"

definition ids_issued :: "db \<Rightarrow> bool" where
  "ids_issued s \<longleftrightarrow>
     list_all (\<lambda>d. user_oid d < next_id s) (users s) \<and>
     list_all (\<lambda>c. course_oid c < next_id s) (courses s) \<and>
     list_all (\<lambda>p. progress_oid p < next_id s) (progress s)"

definition wf_db :: "db \<Rightarrow> bool" where
  "wf_db s \<longleftrightarrow> ids_unique s \<and> ids_issued s \<and> data_model_invariants s"

text \<open>
  The store holds BSON, so every quiz index it holds fits 64 bits.
\<close>

definition stored_ints :: "db \<Rightarrow> bool" where
  "stored_ints s \<longleftrightarrow> list_all (\<lambda>p. list_all bson_int (completed_quizzes p)) (progress s)"

section \<open>Example data\<close>

text \<open>
  A small store: the instructor \<open>ada\<close>, the student \<open>bob\<close>, one course owned by
  \<open>ada\<close> and the progress record of \<open>bob\<close> in it. It is the store the four
  requests of \<open>example_requests\<close> build from the empty one.
\<close>

definition ada :: user_doc where
  "ada = \<lparr>user_oid = 0, username = ''ada'', is_instructor = Some True\<rparr>"

definition bob :: user_doc where
  "bob = \<lparr>user_oid = 1, username = ''bob'', is_instructor = Some False\<rparr>"

definition logic_course :: Course where
  "logic_course = \<lparr>course_oid = 2, title = ''Logic'', description = None,
                    instructor_id = 0, quizzes = []\<rparr>"

definition bob_logic :: Progress where
  "bob_logic = \<lparr>progress_oid = 3, student_id = 1, course_id = 2,
                 completed_quizzes = [], assignments_completed = False\<rparr>"

definition example_db :: db where
  "example_db = \<lparr>users = [ada, bob], courses = [logic_course], progress = [bob_logic],
                  next_id = 4\<rparr>"

definition example_requests :: "request list" where
  "example_requests =
     [CreateUser \<lparr>req_username = ''ada'', req_is_instructor = Some True\<rparr>,
      CreateUser \<lparr>req_username = ''bob'', req_is_instructor = Some False\<rparr>,
      CreateCourse \<lparr>req_title = ''Logic'', req_description = None,
                    instructor_username = ''ada''\<rparr>,
      EnrollStudent ''000000000000000000000002'' \<lparr>student_username = ''bob''\<rparr>]"

definition first_quiz :: QuizQuestion where
  "first_quiz = \<lparr>question = ''Is P or not P valid?'', options = [''yes'', ''no''],
                  correct_option_index = 0\<rparr>"

definition wide_quiz :: QuizQuestion where
  "wide_quiz = first_quiz\<lparr>correct_option_index := 9223372036854775808\<rparr>"

section \<open>Facts about the collection operations\<close>

lemma find_one_None_iff: "find_one q xs = None \<longleftrightarrow> (\<forall>x\<in>set xs. \<not> q x)"
  by (induction xs) auto

lemma find_one_SomeD: "find_one q xs = Some x \<Longrightarrow> x \<in> set xs \<and> q x"
  by (induction xs) (auto split: if_splits)

lemma find_one_append:
  "find_one q (xs @ ys) = (case find_one q xs of None \<Rightarrow> find_one q ys | Some x \<Rightarrow> Some x)"
  by (induction xs) auto

lemma find_one_by_key:
  "distinct (map k xs) \<Longrightarrow> x \<in> set xs \<Longrightarrow> find_one (\<lambda>d. k d = k x) xs = Some x"
proof (induction xs)
  case Nil
  then show ?case by simp
next
  case (Cons d ds)
  show ?case
  proof (cases "x = d")
    case True
    then show ?thesis by simp
  next
    case False
    with Cons.prems have xin: "x \<in> set ds" by simp
    then have "k x \<in> k ` set ds" by simp
    moreover from Cons.prems have "k d \<notin> k ` set ds" by simp
    ultimately have "k d \<noteq> k x" by metis
    with Cons.IH xin Cons.prems show ?thesis by simp
  qed
qed

lemma map_update_one: "(\<And>x. k (f x) = k x) \<Longrightarrow> map k (update_one q f xs) = map k xs"
  by (induction xs) auto

lemma update_one_distinct:
  "distinct (map k xs) \<Longrightarrow>
   update_one (\<lambda>p. k p = a) f xs = map (\<lambda>p. if k p = a then f p else p) xs"
proof (induction xs)
  case Nil
  then show ?case by simp
next
  case (Cons d ds)
  show ?case
  proof (cases "k d = a")
    case True
    from Cons.prems have nd: "k d \<notin> k ` set ds" by simp
    have "\<forall>p\<in>set ds. k p \<noteq> a"
    proof
      fix p assume "p \<in> set ds"
      then have "k p \<in> k ` set ds" by simp
      with nd True show "k p \<noteq> a" by metis
    qed
    then have "map (\<lambda>p. if k p = a then f p else p) ds = ds"
      by (simp add: map_idI)
    with True show ?thesis by simp
  next
    case False
    with Cons show ?thesis by simp
  qed
qed

lemma find_one_update_one:
  "find_one q xs = Some x \<Longrightarrow> distinct (map k xs) \<Longrightarrow> (\<And>p. q (f p) = q p) \<Longrightarrow>
   find_one q (update_one (\<lambda>p. k p = k x) f xs) = Some (f x)"
proof (induction xs)
  case Nil
  then show ?case by simp
next
  case (Cons d ds)
  show ?case
  proof (cases "q d")
    case True
    with Cons.prems show ?thesis by simp
  next
    case False
    with Cons.prems have fx: "find_one q ds = Some x" by simp
    then have "x \<in> set ds" by (simp add: find_one_SomeD)
    with Cons.prems have "k d \<noteq> k x" by auto
    with False Cons.IH [OF fx] Cons.prems show ?thesis by simp
  qed
qed

lemma update_one_idem:
  "(\<And>x. f (f x) = f x) \<Longrightarrow> (\<And>x. q (f x) = q x) \<Longrightarrow>
   update_one q f (update_one q f xs) = update_one q f xs"
  by (induction xs) auto

lemma find_one_same_key_update:
  "find_one (\<lambda>c. k c = a) xs = Some c \<Longrightarrow> (\<And>x. k (f x) = k x) \<Longrightarrow>
   find_one (\<lambda>c. k c = a) (update_one (\<lambda>c. k c = a) f xs) = Some (f c)"
  by (induction xs) (auto split: if_splits)

lemma list_all_update_one:
  "list_all P xs \<Longrightarrow> (\<And>x. P x \<Longrightarrow> P (f x)) \<Longrightarrow> list_all P (update_one q f xs)"
  by (induction xs) auto

lemma list_all_weaken: "list_all P xs \<Longrightarrow> (\<And>x. P x \<Longrightarrow> Q x) \<Longrightarrow> list_all Q xs"
  by (induction xs) auto

section \<open>Facts about the lookups\<close>

lemma lookup_progress_same:
  assumes "users s' = users s" and "progress s' = progress s"
  shows "lookup_progress cid name s' = lookup_progress cid name s"
proof -
  have a: "find_student name s' = find_student name s"
    using assms by (simp add: find_student_def)
  have b: "\<And>sid oid. find_progress sid oid s' = find_progress sid oid s"
    using assms by (simp add: find_progress_def)
  show ?thesis
    unfolding lookup_progress_def a b ..
qed

lemma lookup_progress_update:
  assumes lp: "lookup_progress cid name s = Inr prog"
    and ids: "distinct (map progress_oid (progress s))"
    and keep: "\<And>p. student_id (f p) = student_id p \<and> course_id (f p) = course_id p"
  shows "lookup_progress cid name
           (s\<lparr>progress := update_one (\<lambda>p. progress_oid p = progress_oid prog) f (progress s)\<rparr>)
         = Inr (f prog)"
proof -
  from lp obtain student oid where
    st: "find_student name s = Some student" and
    oid: "PyObjectId_validate cid = Inr oid" and
    fp: "find_progress (user_oid student) oid s = Some prog"
    by (auto simp: lookup_progress_def split: option.splits sum.splits)
  let ?q = "\<lambda>p. student_id p = user_oid student \<and> course_id p = oid"
  from fp have "find_one ?q (progress s) = Some prog"
    by (simp add: find_progress_def)
  then have "find_one ?q (update_one (\<lambda>p. progress_oid p = progress_oid prog) f (progress s))
             = Some (f prog)"
    using ids by (rule find_one_update_one) (simp add: keep)
  with st oid show ?thesis
    by (simp add: lookup_progress_def find_student_def find_progress_def)
qed

lemma find_user_append:
  "find_user oid s = Some u \<Longrightarrow> users s' = users s @ ds \<Longrightarrow> find_user oid s' = Some u"
  by (simp add: find_user_def find_one_append)

lemma owned_by_instructor_mono:
  "owned_by_instructor s c \<Longrightarrow> users s' = users s @ ds \<Longrightarrow> owned_by_instructor s' c"
  by (auto simp: owned_by_instructor_def find_user_def find_one_append split: option.splits)

lemma belongs_to_student_mono:
  "belongs_to_student s p \<Longrightarrow> users s' = users s @ ds \<Longrightarrow> belongs_to_student s' p"
  by (auto simp: belongs_to_student_def find_user_def find_one_append split: option.splits)

lemma owned_by_instructor_users:
  "users s' = users s \<Longrightarrow> owned_by_instructor s' c = owned_by_instructor s c"
  by (simp add: owned_by_instructor_def find_user_def)

lemma belongs_to_student_users:
  "users s' = users s \<Longrightarrow> belongs_to_student s' p = belongs_to_student s p"
  by (simp add: belongs_to_student_def find_user_def)

section \<open>The example store\<close>

lemmas example_defs = example_db_def ada_def bob_def logic_course_def bob_logic_def

lemmas validate_defs = PyObjectId_validate_def ObjectId_is_valid_def ObjectId_of_def
  is_hex_digit_def hex_value_def

lemma validate_2: "PyObjectId_validate ''000000000000000000000002'' = Inr 2"
  by (simp add: validate_defs)

lemma validate_9: "PyObjectId_validate ''000000000000000000000009'' = Inr 9"
  by (simp add: validate_defs)

lemma validate_bad: "PyObjectId_validate ''not-an-object-id'' = Inl (ValueError ''Invalid ObjectId'')"
  by (simp add: validate_defs)

lemma find_student_bob: "find_student ''bob'' example_db = Some bob"
  by (simp add: find_student_def example_defs)

lemma find_progress_bob_2: "find_progress (user_oid bob) 2 example_db = Some bob_logic"
  by (simp add: find_progress_def example_defs)

lemma find_progress_bob_9: "find_progress (user_oid bob) 9 example_db = None"
  by (simp add: find_progress_def example_defs)

lemma lookup_progress_bob:
  "lookup_progress ''000000000000000000000002'' ''bob'' example_db = Inr bob_logic"
  by (simp add: lookup_progress_def find_student_bob validate_2 find_progress_bob_2)

lemma example_ids: "distinct (map progress_oid (progress example_db))"
  by (simp add: example_defs)

lemma run_example: "run example_requests = example_db"
  by (simp add: run_def example_requests_def empty_db_def create_user_def create_course_def
      enroll_student_def find_student_def find_progress_def validate_2 Let_def example_defs)

section \<open>Every handler keeps the store well formed\<close>

lemma wf_db_empty: "wf_db empty_db"
  by (simp add: wf_db_def ids_unique_def ids_issued_def data_model_invariants_def
      usernames_unique_def one_progress_per_pair_def empty_db_def)

lemma wf_db_create_user:
  assumes wf: "wf_db s"
  shows "wf_db (snd (create_user user s))"
proof (cases "find_one (\<lambda>d. username d = req_username user) (users s)")
  case (Some existing)
  with wf show ?thesis by (simp add: create_user_def)
next
  case None
  let ?d = "\<lparr>user_oid = next_id s, username = req_username user,
             is_instructor = req_is_instructor user\<rparr>"
  let ?s' = "s\<lparr>users := users s @ [?d], next_id := Suc (next_id s)\<rparr>"
  from None have s': "snd (create_user user s) = ?s'"
    by (simp add: create_user_def Let_def)
  from wf have iu: "ids_unique s" and ii: "ids_issued s" and dm: "data_model_invariants s"
    by (simp_all add: wf_db_def)
  from ii have fresh: "next_id s \<notin> user_oid ` set (users s)"
    by (auto simp: ids_issued_def list_all_iff)
  from None have newname: "req_username user \<notin> username ` set (users s)"
    by (auto simp: find_one_None_iff)
  have "ids_unique ?s'"
    using iu fresh by (simp add: ids_unique_def)
  moreover have "ids_issued ?s'"
    using ii by (auto simp: ids_issued_def list_all_iff less_Suc_eq)
  moreover have "usernames_unique ?s'"
    using dm newname by (simp add: data_model_invariants_def usernames_unique_def)
  moreover have "one_progress_per_pair ?s'"
    using dm by (simp add: data_model_invariants_def one_progress_per_pair_def)
  moreover have "list_all (owned_by_instructor ?s') (courses ?s')"
  proof -
    from dm have "list_all (owned_by_instructor s) (courses s)"
      by (simp add: data_model_invariants_def)
    then have "list_all (owned_by_instructor ?s') (courses s)"
      by (rule list_all_weaken) (erule owned_by_instructor_mono [where ds = "[?d]"], simp)
    then show ?thesis by simp
  qed
  moreover have "list_all (belongs_to_student ?s') (progress ?s')"
  proof -
    from dm have "list_all (belongs_to_student s) (progress s)"
      by (simp add: data_model_invariants_def)
    then have "list_all (belongs_to_student ?s') (progress s)"
      by (rule list_all_weaken) (erule belongs_to_student_mono [where ds = "[?d]"], simp)
    then show ?thesis by simp
  qed
  ultimately have "wf_db ?s'"
    by (simp add: wf_db_def data_model_invariants_def)
  with s' show ?thesis by simp
qed

lemma wf_db_create_course:
  assumes wf: "wf_db s"
  shows "wf_db (snd (create_course course s))"
proof (cases "find_one (\<lambda>d. username d = instructor_username course \<and> is_instructor d = Some True)
               (users s)")
  case None
  with wf show ?thesis by (simp add: create_course_def)
next
  case (Some i)
  let ?c = "\<lparr>course_oid = next_id s, title = req_title course,
             description = req_description course,
             instructor_id = user_oid i, quizzes = []\<rparr>"
  let ?s' = "s\<lparr>courses := courses s @ [?c], next_id := Suc (next_id s)\<rparr>"
  from Some have s': "snd (create_course course s) = ?s'"
    by (simp add: create_course_def Let_def)
  from wf have iu: "ids_unique s" and ii: "ids_issued s" and dm: "data_model_invariants s"
    by (simp_all add: wf_db_def)
  from ii have fresh: "next_id s \<notin> course_oid ` set (courses s)"
    by (auto simp: ids_issued_def list_all_iff)
  from find_one_SomeD [OF Some] have iin: "i \<in> set (users s)" and inst: "is_instructor i = Some True"
    by simp_all
  from iu have "distinct (map user_oid (users s))" by (simp add: ids_unique_def)
  then have "find_one (\<lambda>d. user_oid d = user_oid i) (users s) = Some i"
    using iin by (rule find_one_by_key)
  with inst have own: "owned_by_instructor s ?c"
    by (simp add: owned_by_instructor_def find_user_def)
  have ou: "owned_by_instructor ?s' = owned_by_instructor s"
    by (rule ext, rule owned_by_instructor_users) simp
  have bu: "belongs_to_student ?s' = belongs_to_student s"
    by (rule ext, rule belongs_to_student_users) simp
  have "ids_unique ?s'"
    using iu fresh by (simp add: ids_unique_def)
  moreover have "ids_issued ?s'"
    using ii by (auto simp: ids_issued_def list_all_iff less_Suc_eq)
  moreover have "data_model_invariants ?s'"
    using dm own
    by (simp add: data_model_invariants_def usernames_unique_def one_progress_per_pair_def ou bu)
  ultimately have "wf_db ?s'"
    by (simp add: wf_db_def)
  with s' show ?thesis by simp
qed

lemma wf_db_enroll_student:
  assumes wf: "wf_db s"
  shows "wf_db (snd (enroll_student cid r s))"
proof (cases "\<exists>student oid. find_student (student_username r) s = Some student \<and>
    PyObjectId_validate cid = Inr oid \<and> find_progress (user_oid student) oid s = None")
  case False
  then have "snd (enroll_student cid r s) = s"
    by (auto simp: enroll_student_def split: option.splits sum.splits)
  with wf show ?thesis by simp
next
  case True
  then obtain student oid where st: "find_student (student_username r) s = Some student"
    and oid: "PyObjectId_validate cid = Inr oid"
    and np: "find_progress (user_oid student) oid s = None"
    by blast
  let ?p = "\<lparr>progress_oid = next_id s, student_id = user_oid student, course_id = oid,
             completed_quizzes = [], assignments_completed = False\<rparr>"
  let ?s' = "s\<lparr>progress := progress s @ [?p], next_id := Suc (next_id s)\<rparr>"
  from st oid np have s': "snd (enroll_student cid r s) = ?s'"
    by (simp add: enroll_student_def Let_def)
  from wf have iu: "ids_unique s" and ii: "ids_issued s" and dm: "data_model_invariants s"
    by (simp_all add: wf_db_def)
  from ii have fresh: "next_id s \<notin> progress_oid ` set (progress s)"
    by (auto simp: ids_issued_def list_all_iff)
  from np have newpair:
    "(user_oid student, oid) \<notin> (\<lambda>p. (student_id p, course_id p)) ` set (progress s)"
    by (auto simp: find_progress_def find_one_None_iff)
  from st have fs: "find_one (\<lambda>d. username d = student_username r \<and> is_instructor d = Some False)
      (users s) = Some student"
    by (simp add: find_student_def)
  from find_one_SomeD [OF fs] have sin: "student \<in> set (users s)"
    and stud: "is_instructor student = Some False"
    by simp_all
  from iu have "distinct (map user_oid (users s))" by (simp add: ids_unique_def)
  then have "find_one (\<lambda>d. user_oid d = user_oid student) (users s) = Some student"
    using sin by (rule find_one_by_key)
  with stud have bel: "belongs_to_student s ?p"
    by (simp add: belongs_to_student_def find_user_def)
  have ou: "owned_by_instructor ?s' = owned_by_instructor s"
    by (rule ext, rule owned_by_instructor_users) simp
  have bu: "belongs_to_student ?s' = belongs_to_student s"
    by (rule ext, rule belongs_to_student_users) simp
  have "ids_unique ?s'"
    using iu fresh by (simp add: ids_unique_def)
  moreover have "ids_issued ?s'"
    using ii by (auto simp: ids_issued_def list_all_iff less_Suc_eq)
  moreover have "data_model_invariants ?s'"
    using dm bel newpair
    by (simp add: data_model_invariants_def usernames_unique_def one_progress_per_pair_def ou bu)
  ultimately have "wf_db ?s'"
    by (simp add: wf_db_def)
  with s' show ?thesis by simp
qed

lemma wf_db_update_courses:
  assumes wf: "wf_db s"
    and keep: "\<And>c. course_oid (f c) = course_oid c \<and> instructor_id (f c) = instructor_id c"
  shows "wf_db (s\<lparr>courses := update_one q f (courses s)\<rparr>)"
proof -
  let ?s' = "s\<lparr>courses := update_one q f (courses s)\<rparr>"
  from wf have iu: "ids_unique s" and ii: "ids_issued s" and dm: "data_model_invariants s"
    by (simp_all add: wf_db_def)
  have ids: "map course_oid (update_one q f (courses s)) = map course_oid (courses s)"
    by (rule map_update_one) (simp add: keep)
  have ou: "owned_by_instructor ?s' = owned_by_instructor s"
    by (rule ext, rule owned_by_instructor_users) simp
  have bu: "belongs_to_student ?s' = belongs_to_student s"
    by (rule ext, rule belongs_to_student_users) simp
  have own: "\<And>c. owned_by_instructor s c \<Longrightarrow> owned_by_instructor s (f c)"
    by (simp add: owned_by_instructor_def keep)
  have "ids_unique ?s'"
    using iu by (simp add: ids_unique_def ids)
  moreover have "ids_issued ?s'"
  proof -
    from ii have "list_all (\<lambda>c. course_oid c < next_id s) (courses s)"
      by (simp add: ids_issued_def)
    then have "list_all (\<lambda>c. course_oid c < next_id s) (update_one q f (courses s))"
      by (rule list_all_update_one) (simp add: keep)
    with ii show ?thesis by (simp add: ids_issued_def)
  qed
  moreover have "data_model_invariants ?s'"
  proof -
    from dm have "list_all (owned_by_instructor s) (courses s)"
      by (simp add: data_model_invariants_def)
    then have "list_all (owned_by_instructor s) (update_one q f (courses s))"
      by (rule list_all_update_one) (rule own)
    with dm show ?thesis
      by (simp add: data_model_invariants_def usernames_unique_def one_progress_per_pair_def
          ou bu)
  qed
  ultimately show ?thesis by (simp add: wf_db_def)
qed

lemma wf_db_update_progress:
  assumes wf: "wf_db s"
    and keep: "\<And>p. progress_oid (f p) = progress_oid p \<and> student_id (f p) = student_id p \<and>
                    course_id (f p) = course_id p"
  shows "wf_db (s\<lparr>progress := update_one q f (progress s)\<rparr>)"
proof -
  let ?s' = "s\<lparr>progress := update_one q f (progress s)\<rparr>"
  from wf have iu: "ids_unique s" and ii: "ids_issued s" and dm: "data_model_invariants s"
    by (simp_all add: wf_db_def)
  have ids: "map progress_oid (update_one q f (progress s)) = map progress_oid (progress s)"
    by (rule map_update_one) (simp add: keep)
  have pairs: "map (\<lambda>p. (student_id p, course_id p)) (update_one q f (progress s))
               = map (\<lambda>p. (student_id p, course_id p)) (progress s)"
    by (rule map_update_one) (simp add: keep)
  have ou: "owned_by_instructor ?s' = owned_by_instructor s"
    by (rule ext, rule owned_by_instructor_users) simp
  have bu: "belongs_to_student ?s' = belongs_to_student s"
    by (rule ext, rule belongs_to_student_users) simp
  have bel: "\<And>p. belongs_to_student s p \<Longrightarrow> belongs_to_student s (f p)"
    by (simp add: belongs_to_student_def keep)
  have "ids_unique ?s'"
    using iu by (simp add: ids_unique_def ids)
  moreover have "ids_issued ?s'"
  proof -
    from ii have "list_all (\<lambda>p. progress_oid p < next_id s) (progress s)"
      by (simp add: ids_issued_def)
    then have "list_all (\<lambda>p. progress_oid p < next_id s) (update_one q f (progress s))"
      by (rule list_all_update_one) (simp add: keep)
    with ii show ?thesis by (simp add: ids_issued_def)
  qed
  moreover have "data_model_invariants ?s'"
  proof -
    from dm have "list_all (belongs_to_student s) (progress s)"
      by (simp add: data_model_invariants_def)
    then have "list_all (belongs_to_student s) (update_one q f (progress s))"
      by (rule list_all_update_one) (rule bel)
    with dm show ?thesis
      by (simp add: data_model_invariants_def usernames_unique_def one_progress_per_pair_def
          ou bu pairs)
  qed
  ultimately show ?thesis by (simp add: wf_db_def)
qed

lemma wf_db_add_quiz:
  assumes wf: "wf_db s"
  shows "wf_db (snd (add_quiz cid quiz s))"
proof -
  let ?f = "\<lambda>c. c\<lparr>quizzes := quizzes c @ [quiz]\<rparr>"
  have upd: "\<And>oid. wf_db (s\<lparr>courses := update_one (\<lambda>c. course_oid c = oid) ?f (courses s)\<rparr>)"
    using wf by (rule wf_db_update_courses) simp
  have "snd (add_quiz cid quiz s) = s \<or>
        (\<exists>oid. snd (add_quiz cid quiz s) =
           s\<lparr>courses := update_one (\<lambda>c. course_oid c = oid) ?f (courses s)\<rparr>)"
    by (auto simp: add_quiz_def Let_def split: sum.splits option.splits)
  with wf upd show ?thesis by auto
qed

lemma wf_db_complete_quiz:
  assumes wf: "wf_db s"
  shows "wf_db (snd (complete_quiz cid name r s))"
proof (cases "lookup_progress cid name s")
  case (Inl e)
  with wf show ?thesis by (simp add: complete_quiz_def)
next
  case (Inr prog)
  let ?f = "\<lambda>p. p\<lparr>completed_quizzes := completed_quizzes prog @ [quiz_index r]\<rparr>"
  have "wf_db (s\<lparr>progress := update_one (\<lambda>p. progress_oid p = progress_oid prog) ?f (progress s)\<rparr>)"
    using wf by (rule wf_db_update_progress) simp
  with Inr wf show ?thesis by (simp add: complete_quiz_def Let_def)
qed

lemma wf_db_complete_assignment:
  assumes wf: "wf_db s"
  shows "wf_db (snd (complete_assignment cid name s))"
proof (cases "lookup_progress cid name s")
  case (Inl e)
  with wf show ?thesis by (simp add: complete_assignment_def)
next
  case (Inr prog)
  let ?f = "\<lambda>p. p\<lparr>assignments_completed := True\<rparr>"
  have "wf_db (s\<lparr>progress := update_one (\<lambda>p. progress_oid p = progress_oid prog) ?f (progress s)\<rparr>)"
    using wf by (rule wf_db_update_progress) simp
  with Inr show ?thesis by (simp add: complete_assignment_def)
qed

lemma wf_db_handle: "wf_db s \<Longrightarrow> wf_db (handle r s)"
  by (cases r)
    (simp_all add: wf_db_create_user wf_db_create_course wf_db_add_quiz wf_db_enroll_student
      wf_db_complete_quiz wf_db_complete_assignment list_courses_def get_progress_def)

lemma wf_db_foldl: "wf_db s \<Longrightarrow> wf_db (foldl (\<lambda>s r. handle r s) s rs)"
  by (induction rs arbitrary: s) (simp_all add: wf_db_handle)

lemma wf_db_run: "wf_db (run rs)"
  unfolding run_def by (rule wf_db_foldl) (rule wf_db_empty)

section \<open>Every handler keeps the stored quiz indices within 64 bits\<close>

lemma stored_ints_empty: "stored_ints empty_db"
  by (simp add: stored_ints_def empty_db_def)

lemma stored_ints_same: "progress s' = progress s \<Longrightarrow> stored_ints s \<Longrightarrow> stored_ints s'"
  by (simp add: stored_ints_def)

lemma stored_ints_create_user: "stored_ints s \<Longrightarrow> stored_ints (snd (create_user user s))"
  by (auto simp: create_user_def Let_def stored_ints_def split: option.splits)

lemma stored_ints_create_course:
  "stored_ints s \<Longrightarrow> stored_ints (snd (create_course course s))"
  by (auto simp: create_course_def Let_def stored_ints_def split: option.splits)

lemma stored_ints_add_quiz: "stored_ints s \<Longrightarrow> stored_ints (snd (add_quiz cid quiz s))"
  by (auto simp: add_quiz_def Let_def stored_ints_def split: sum.splits option.splits)

lemma stored_ints_enroll_student:
  "stored_ints s \<Longrightarrow> stored_ints (snd (enroll_student cid r s))"
  by (auto simp: enroll_student_def Let_def stored_ints_def split: sum.splits option.splits)

lemma stored_ints_complete_quiz:
  assumes st: "stored_ints s"
  shows "stored_ints (snd (complete_quiz cid name r s))"
proof (cases "lookup_progress cid name s")
  case (Inl e)
  with st show ?thesis by (simp add: complete_quiz_def)
next
  case (Inr prog)
  let ?done = "completed_quizzes prog @ [quiz_index r]"
  show ?thesis
  proof (cases "quiz_index r \<notin> set (completed_quizzes prog) \<and> list_all bson_int ?done")
    case False
    with Inr have "snd (complete_quiz cid name r s) = s"
      by (auto simp: complete_quiz_def Let_def)
    with st show ?thesis by simp
  next
    case True
    from st have "list_all (\<lambda>p. list_all bson_int (completed_quizzes p)) (progress s)"
      by (simp add: stored_ints_def)
    then have "list_all (\<lambda>p. list_all bson_int (completed_quizzes p))
        (update_one (\<lambda>p. progress_oid p = progress_oid prog)
           (\<lambda>p. p\<lparr>completed_quizzes := ?done\<rparr>) (progress s))"
      by (rule list_all_update_one) (use True in simp)
    with Inr True show ?thesis
      by (simp add: complete_quiz_def Let_def stored_ints_def)
  qed
qed

lemma stored_ints_complete_assignment:
  assumes st: "stored_ints s"
  shows "stored_ints (snd (complete_assignment cid name s))"
proof (cases "lookup_progress cid name s")
  case (Inl e)
  with st show ?thesis by (simp add: complete_assignment_def)
next
  case (Inr prog)
  from st have "list_all (\<lambda>p. list_all bson_int (completed_quizzes p)) (progress s)"
    by (simp add: stored_ints_def)
  then have "list_all (\<lambda>p. list_all bson_int (completed_quizzes p))
      (update_one (\<lambda>p. progress_oid p = progress_oid prog)
         (\<lambda>p. p\<lparr>assignments_completed := True\<rparr>) (progress s))"
    by (rule list_all_update_one) simp
  with Inr show ?thesis
    by (simp add: complete_assignment_def stored_ints_def)
qed

lemma stored_ints_handle: "stored_ints s \<Longrightarrow> stored_ints (handle r s)"
  by (cases r)
    (simp_all add: stored_ints_create_user stored_ints_create_course stored_ints_add_quiz
      stored_ints_enroll_student stored_ints_complete_quiz stored_ints_complete_assignment
      list_courses_def get_progress_def)

lemma stored_ints_foldl: "stored_ints s \<Longrightarrow> stored_ints (foldl (\<lambda>s r. handle r s) s rs)"
  by (induction rs arbitrary: s) (simp_all add: stored_ints_handle)

lemma stored_ints_run: "stored_ints (run rs)"
  unfolding run_def by (rule stored_ints_foldl) (rule stored_ints_empty)

lemma stored_ints_lookup:
  assumes "stored_ints s" and "lookup_progress cid name s = Inr prog"
  shows "list_all bson_int (completed_quizzes prog)"
proof -
  from assms(2) obtain sid oid where "find_progress sid oid s = Some prog"
    by (auto simp: lookup_progress_def split: option.splits sum.splits)
  then have "prog \<in> set (progress s)"
    using find_one_SomeD [of "\<lambda>p. student_id p = sid \<and> course_id p = oid" "progress s" prog]
    by (simp add: find_progress_def)
  with assms(1) show ?thesis
    by (simp add: stored_ints_def list_all_iff)
qed

section \<open>The claims\<close>

text \<open>
  Claim C1. Enrollment is idempotent. For a student name that resolves to a non-instructor
  account and a course id that is a valid object id: if a progress record of the pair
  exists, \<open>enroll_student\<close> returns it and leaves the store as it is; if none exists, it
  appends a new record with no completed quiz and \<open>assignments_completed = False\<close>;
  and enrolling again in the store the first enrollment left returns the same record and
  the same store.
\<close>

theorem enroll_student_idempotent:
  assumes st: "find_student (student_username r) s = Some student"
    and oid: "PyObjectId_validate cid = Inr oid"
  shows "(\<forall>p. find_progress (user_oid student) oid s = Some p \<longrightarrow>
            enroll_student cid r s = (Inr p, s)) \<and>
         (find_progress (user_oid student) oid s = None \<longrightarrow>
            enroll_student cid r s =
              (Inr \<lparr>progress_oid = next_id s, student_id = user_oid student, course_id = oid,
                    completed_quizzes = [], assignments_completed = False\<rparr>,
               s\<lparr>progress := progress s @
                    [\<lparr>progress_oid = next_id s, student_id = user_oid student, course_id = oid,
                      completed_quizzes = [], assignments_completed = False\<rparr>],
                  next_id := Suc (next_id s)\<rparr>)) \<and>
         enroll_student cid r (snd (enroll_student cid r s)) = enroll_student cid r s"
proof (intro conjI allI impI)
  fix p assume "find_progress (user_oid student) oid s = Some p"
  with st oid show "enroll_student cid r s = (Inr p, s)"
    by (simp add: enroll_student_def Let_def)
next
  assume "find_progress (user_oid student) oid s = None"
  with st oid show "enroll_student cid r s =
              (Inr \<lparr>progress_oid = next_id s, student_id = user_oid student, course_id = oid,
                    completed_quizzes = [], assignments_completed = False\<rparr>,
               s\<lparr>progress := progress s @
                    [\<lparr>progress_oid = next_id s, student_id = user_oid student, course_id = oid,
                      completed_quizzes = [], assignments_completed = False\<rparr>],
                  next_id := Suc (next_id s)\<rparr>)"
    by (simp add: enroll_student_def Let_def)
next
  show "enroll_student cid r (snd (enroll_student cid r s)) = enroll_student cid r s"
  proof (cases "find_progress (user_oid student) oid s")
    case (Some p)
    with st oid show ?thesis by (simp add: enroll_student_def Let_def)
  next
    case None
    let ?new = "\<lparr>progress_oid = next_id s, student_id = user_oid student, course_id = oid,
                    completed_quizzes = [], assignments_completed = False\<rparr>"
    let ?s' = "s\<lparr>progress := progress s @ [?new], next_id := Suc (next_id s)\<rparr>"
    from None st oid have first: "enroll_student cid r s = (Inr ?new, ?s')"
      by (simp add: enroll_student_def Let_def)
    have st': "find_student (student_username r) ?s' = Some student"
      using st by (simp add: find_student_def)
    have "find_progress (user_oid student) oid ?s' = Some ?new"
      using None by (simp add: find_progress_def find_one_append)
    with st' oid have "enroll_student cid r ?s' = (Inr ?new, ?s')"
      by (simp add: enroll_student_def Let_def)
    with first show ?thesis by simp
  qed
qed

theorem enroll_student_idempotent_witness:
  "find_student (student_username \<lparr>student_username = ''bob''\<rparr>) example_db = Some bob \<and>
   PyObjectId_validate ''000000000000000000000002'' = Inr 2 \<and>
   PyObjectId_validate ''000000000000000000000009'' = Inr 9 \<and>
   enroll_student ''000000000000000000000002'' \<lparr>student_username = ''bob''\<rparr> example_db
     = (Inr bob_logic, example_db) \<and>
   fst (enroll_student ''000000000000000000000009'' \<lparr>student_username = ''bob''\<rparr> example_db)
     = Inr \<lparr>progress_oid = 4, student_id = 1, course_id = 9,
            completed_quizzes = [], assignments_completed = False\<rparr> \<and>
   progress (snd (enroll_student ''000000000000000000000009'' \<lparr>student_username = ''bob''\<rparr>
        example_db))
     = [bob_logic, \<lparr>progress_oid = 4, student_id = 1, course_id = 9,
            completed_quizzes = [], assignments_completed = False\<rparr>]"
proof -
  let ?r = "\<lparr>student_username = ''bob''\<rparr>"
  have st: "find_student (student_username ?r) example_db = Some bob"
    by (simp add: find_student_bob)
  from enroll_student_idempotent [OF st validate_2] find_progress_bob_2
  have a: "enroll_student ''000000000000000000000002'' ?r example_db = (Inr bob_logic, example_db)"
    by blast
  from enroll_student_idempotent [OF st validate_9] find_progress_bob_9
  have b: "enroll_student ''000000000000000000000009'' ?r example_db =
              (Inr \<lparr>progress_oid = next_id example_db, student_id = user_oid bob, course_id = 9,
                    completed_quizzes = [], assignments_completed = False\<rparr>,
               example_db\<lparr>progress := progress example_db @
                    [\<lparr>progress_oid = next_id example_db, student_id = user_oid bob, course_id = 9,
                      completed_quizzes = [], assignments_completed = False\<rparr>],
                  next_id := Suc (next_id example_db)\<rparr>)"
    by blast
  have c: "next_id example_db = 4 \<and> user_oid bob = 1 \<and> progress example_db = [bob_logic]"
    by (simp add: example_defs)
  show ?thesis
    using st a b c by (simp add: validate_2 validate_9)
qed

text \<open>
  Claim C2, as amended. Marking a quiz complete is an idempotent add of an index that fits
  64 bits. For a progress record found by the handler's lookup, in a store whose progress
  ids are pairwise different and whose record holds only indices that fit, and for a quiz
  index within the signed 64-bit range, the handler succeeds; afterwards the lookup finds
  the same record with the index added to its completed quizzes unless it was there
  already, so the set of completed quizzes is the old set united with the index; and
  completing the same index again changes nothing.
\<close>

theorem complete_quiz_adds_int64:
  assumes lp: "lookup_progress cid name s = Inr prog"
    and ids: "distinct (map progress_oid (progress s))"
    and stored: "list_all bson_int (completed_quizzes prog)"
    and rng: "bson_int (quiz_index r)"
  shows "fst (complete_quiz cid name r s) = Inr ''Quiz marked complete'' \<and>
         lookup_progress cid name (snd (complete_quiz cid name r s)) =
           Inr (prog\<lparr>completed_quizzes :=
                  (if quiz_index r \<in> set (completed_quizzes prog) then completed_quizzes prog
                   else completed_quizzes prog @ [quiz_index r])\<rparr>) \<and>
         set (if quiz_index r \<in> set (completed_quizzes prog) then completed_quizzes prog
              else completed_quizzes prog @ [quiz_index r])
           = set (completed_quizzes prog) \<union> {quiz_index r} \<and>
         complete_quiz cid name r (snd (complete_quiz cid name r s)) =
           complete_quiz cid name r s"
proof (cases "quiz_index r \<in> set (completed_quizzes prog)")
  case True
  with lp have "complete_quiz cid name r s = (Inr ''Quiz marked complete'', s)"
    by (simp add: complete_quiz_def)
  with True lp show ?thesis by auto
next
  case False
  let ?f = "\<lambda>p. p\<lparr>completed_quizzes := completed_quizzes prog @ [quiz_index r]\<rparr>"
  let ?s' = "s\<lparr>progress := update_one (\<lambda>p. progress_oid p = progress_oid prog) ?f (progress s)\<rparr>"
  from stored rng have fits: "list_all bson_int (completed_quizzes prog @ [quiz_index r])"
    by simp
  from False lp fits have first: "complete_quiz cid name r s = (Inr ''Quiz marked complete'', ?s')"
    by (simp add: complete_quiz_def)
  have lp': "lookup_progress cid name ?s' = Inr (?f prog)"
    using lp ids by (rule lookup_progress_update) simp
  then have "complete_quiz cid name r ?s' = (Inr ''Quiz marked complete'', ?s')"
    by (simp add: complete_quiz_def)
  with first lp' False show ?thesis by auto
qed

theorem complete_quiz_adds_int64_witness:
  "lookup_progress ''000000000000000000000002'' ''bob'' example_db = Inr bob_logic \<and>
   distinct (map progress_oid (progress example_db)) \<and>
   list_all bson_int (completed_quizzes bob_logic) \<and>
   bson_int (quiz_index \<lparr>quiz_index = 0\<rparr>) \<and>
   lookup_progress ''000000000000000000000002'' ''bob''
     (snd (complete_quiz ''000000000000000000000002'' ''bob'' \<lparr>quiz_index = 0\<rparr> example_db))
     = Inr (bob_logic\<lparr>completed_quizzes := [0]\<rparr>) \<and>
   complete_quiz ''000000000000000000000002'' ''bob'' \<lparr>quiz_index = 0\<rparr>
     (snd (complete_quiz ''000000000000000000000002'' ''bob'' \<lparr>quiz_index = 0\<rparr> example_db))
     = complete_quiz ''000000000000000000000002'' ''bob'' \<lparr>quiz_index = 0\<rparr> example_db"
proof -
  have stored: "list_all bson_int (completed_quizzes bob_logic)"
    by (simp add: bob_logic_def)
  have rng: "bson_int (quiz_index \<lparr>quiz_index = 0\<rparr>)"
    by (simp add: bson_int_def)
  from complete_quiz_adds_int64 [OF lookup_progress_bob example_ids stored rng]
    lookup_progress_bob example_ids stored rng
  show ?thesis by (simp add: bob_logic_def)
qed

text \<open>
  The claim as it was stated, for every quiz index, fails at the index \<open>2 ^ 63\<close>: the
  encoder raises, nothing is written, and the record's completed quizzes are what they
  were, without the index.
\<close>

theorem complete_quiz_idempotent_add_counterexample:
  "lookup_progress ''000000000000000000000002'' ''bob'' example_db = Inr bob_logic \<and>
   distinct (map progress_oid (progress example_db)) \<and>
   lookup_progress ''000000000000000000000002'' ''bob''
     (snd (complete_quiz ''000000000000000000000002'' ''bob''
             \<lparr>quiz_index = 9223372036854775808\<rparr> example_db))
     = Inr bob_logic \<and>
   set (completed_quizzes bob_logic) \<noteq>
     set (completed_quizzes bob_logic) \<union> {9223372036854775808}"
proof -
  have "complete_quiz ''000000000000000000000002'' ''bob''
          \<lparr>quiz_index = 9223372036854775808\<rparr> example_db = (Inl bson_overflow, example_db)"
    by (simp add: complete_quiz_def lookup_progress_bob bob_logic_def bson_int_def)
  then show ?thesis
    using lookup_progress_bob example_ids by (simp add: bob_logic_def)
qed

text \<open>
  Claim C3. Registration is claimed to fail exactly when the username is taken, and
  otherwise to insert one user and return it. At a request whose \<open>is_instructor\<close> is
  \<open>None\<close>, which \<open>UserCreateRequest\<close> admits, the username is free and the
  document is inserted, yet the handler raises: \<open>User(**user_doc)\<close> rejects the flag.
\<close>

theorem create_user_null_flag:
  "create_user \<lparr>req_username = ''carol'', req_is_instructor = None\<rparr> empty_db =
     (Inl (ValidationError ''is_instructor: none is not an allowed value''),
      \<lparr>users = [\<lparr>user_oid = 0, username = ''carol'', is_instructor = None\<rparr>],
       courses = [], progress = [], next_id = 1\<rparr>)"
  by (simp add: create_user_def User_of_doc_def empty_db_def Let_def)

text \<open>
  Claim C4. Course creation is instructor-only. If no account has the requested name
  together with \<open>is_instructor = True\<close> (the name is unknown, or belongs to an account
  that is not an instructor), \<open>create_course\<close> raises the 403 error and leaves the store
  as it is. Otherwise it appends one course with the requested title and description, the
  id of an account of that name with \<open>is_instructor = True\<close> as owner, and no quiz
  question, and returns it.
\<close>

theorem create_course_instructor_only:
  "((\<forall>d\<in>set (users s). \<not> (username d = instructor_username course \<and> is_instructor d = Some True)) \<longrightarrow>
      create_course course s = (Inl (HTTPException 403 ''Only instructors can create courses''), s)) \<and>
   ((\<exists>d\<in>set (users s). username d = instructor_username course \<and> is_instructor d = Some True) \<longrightarrow>
      (\<exists>instructor\<in>set (users s).
         username instructor = instructor_username course \<and> is_instructor instructor = Some True \<and>
         create_course course s =
           (Inr \<lparr>course_oid = next_id s, title = req_title course,
                 description = req_description course,
                 instructor_id = user_oid instructor, quizzes = []\<rparr>,
            s\<lparr>courses := courses s @
                 [\<lparr>course_oid = next_id s, title = req_title course,
                   description = req_description course,
                   instructor_id = user_oid instructor, quizzes = []\<rparr>],
               next_id := Suc (next_id s)\<rparr>)))"
proof (intro conjI impI)
  assume "\<forall>d\<in>set (users s). \<not> (username d = instructor_username course \<and> is_instructor d = Some True)"
  then have "find_one (\<lambda>d. username d = instructor_username course \<and> is_instructor d = Some True)
               (users s) = None"
    by (simp add: find_one_None_iff)
  then show "create_course course s =
      (Inl (HTTPException 403 ''Only instructors can create courses''), s)"
    by (simp add: create_course_def Let_def)
next
  assume "\<exists>d\<in>set (users s). username d = instructor_username course \<and> is_instructor d = Some True"
  then have "find_one (\<lambda>d. username d = instructor_username course \<and> is_instructor d = Some True)
               (users s) \<noteq> None"
    by (simp add: find_one_None_iff)
  then obtain i where i: "find_one (\<lambda>d. username d = instructor_username course \<and>
      is_instructor d = Some True) (users s) = Some i"
    by auto
  from find_one_SomeD [OF i] have "i \<in> set (users s)"
    and "username i = instructor_username course" and "is_instructor i = Some True"
    by simp_all
  moreover from i have "create_course course s =
           (Inr \<lparr>course_oid = next_id s, title = req_title course,
                 description = req_description course,
                 instructor_id = user_oid i, quizzes = []\<rparr>,
            s\<lparr>courses := courses s @
                 [\<lparr>course_oid = next_id s, title = req_title course,
                   description = req_description course,
                   instructor_id = user_oid i, quizzes = []\<rparr>],
               next_id := Suc (next_id s)\<rparr>)"
    by (simp add: create_course_def Let_def)
  ultimately show "\<exists>instructor\<in>set (users s).
         username instructor = instructor_username course \<and> is_instructor instructor = Some True \<and>
         create_course course s =
           (Inr \<lparr>course_oid = next_id s, title = req_title course,
                 description = req_description course,
                 instructor_id = user_oid instructor, quizzes = []\<rparr>,
            s\<lparr>courses := courses s @
                 [\<lparr>course_oid = next_id s, title = req_title course,
                   description = req_description course,
                   instructor_id = user_oid instructor, quizzes = []\<rparr>],
               next_id := Suc (next_id s)\<rparr>)"
    by blast
qed

theorem create_course_instructor_only_witness:
  "create_course \<lparr>req_title = ''Sets'', req_description = None, instructor_username = ''bob''\<rparr>
      example_db
     = (Inl (HTTPException 403 ''Only instructors can create courses''), example_db) \<and>
   create_course \<lparr>req_title = ''Sets'', req_description = None, instructor_username = ''eve''\<rparr>
      example_db
     = (Inl (HTTPException 403 ''Only instructors can create courses''), example_db) \<and>
   fst (create_course \<lparr>req_title = ''Sets'', req_description = None, instructor_username = ''ada''\<rparr>
      example_db)
     = Inr \<lparr>course_oid = 4, title = ''Sets'', description = None, instructor_id = 0,
            quizzes = []\<rparr>"
proof -
  let ?bob = "\<lparr>req_title = ''Sets'', req_description = None, instructor_username = ''bob''\<rparr>"
  let ?eve = "\<lparr>req_title = ''Sets'', req_description = None, instructor_username = ''eve''\<rparr>"
  let ?ada = "\<lparr>req_title = ''Sets'', req_description = None, instructor_username = ''ada''\<rparr>"
  have nb: "\<forall>d\<in>set (users example_db).
      \<not> (username d = instructor_username ?bob \<and> is_instructor d = Some True)"
    by (simp add: example_defs)
  have ne: "\<forall>d\<in>set (users example_db).
      \<not> (username d = instructor_username ?eve \<and> is_instructor d = Some True)"
    by (simp add: example_defs)
  have ea: "\<exists>d\<in>set (users example_db).
      username d = instructor_username ?ada \<and> is_instructor d = Some True"
    by (simp add: example_defs)
  from create_course_instructor_only [of example_db ?bob] nb
  have a: "create_course ?bob example_db
     = (Inl (HTTPException 403 ''Only instructors can create courses''), example_db)"
    by blast
  from create_course_instructor_only [of example_db ?eve] ne
  have b: "create_course ?eve example_db
     = (Inl (HTTPException 403 ''Only instructors can create courses''), example_db)"
    by blast
  from create_course_instructor_only [of example_db ?ada] ea
  have "\<exists>instructor\<in>set (users example_db).
         username instructor = instructor_username ?ada \<and> is_instructor instructor = Some True \<and>
         create_course ?ada example_db =
           (Inr \<lparr>course_oid = next_id example_db, title = req_title ?ada,
                 description = req_description ?ada,
                 instructor_id = user_oid instructor, quizzes = []\<rparr>,
            example_db\<lparr>courses := courses example_db @
                 [\<lparr>course_oid = next_id example_db, title = req_title ?ada,
                   description = req_description ?ada,
                   instructor_id = user_oid instructor, quizzes = []\<rparr>],
               next_id := Suc (next_id example_db)\<rparr>)"
    by blast
  then obtain i where iin: "i \<in> set (users example_db)"
    and iname: "username i = instructor_username ?ada"
    and cc: "create_course ?ada example_db =
           (Inr \<lparr>course_oid = next_id example_db, title = req_title ?ada,
                 description = req_description ?ada,
                 instructor_id = user_oid i, quizzes = []\<rparr>,
            example_db\<lparr>courses := courses example_db @
                 [\<lparr>course_oid = next_id example_db, title = req_title ?ada,
                   description = req_description ?ada,
                   instructor_id = user_oid i, quizzes = []\<rparr>],
               next_id := Suc (next_id example_db)\<rparr>)"
    by blast
  from iin iname have "i = ada" by (auto simp: example_defs)
  with cc have c: "fst (create_course ?ada example_db) =
      Inr \<lparr>course_oid = 4, title = ''Sets'', description = None, instructor_id = 0,
            quizzes = []\<rparr>"
    by (simp add: example_defs)
  from a b c show ?thesis by simp
qed

text \<open>
  Claim C5. In every store reached from the empty one by a sequence of the eight
  operations, usernames are pairwise different, there is at most one progress record per
  pair of student and course, the owner of every course is an account with
  \<open>is_instructor = True\<close>, and the student of every progress record is an account with
  \<open>is_instructor = False\<close>.
\<close>

theorem reachable_invariants: "data_model_invariants (run rs)"
  using wf_db_run [of rs] by (simp add: wf_db_def)

theorem reachable_invariants_witness:
  "run example_requests = example_db \<and> data_model_invariants example_db"
  using reachable_invariants [of example_requests] by (simp add: run_example)

text \<open>
  Claim C6, as amended. Appending a quiz question, for a course id that is a valid object
  id. If no course has the id, \<open>add_quiz\<close> raises the 404 error and leaves the store as it
  is. If a course has it and the question's \<open>correct_option_index\<close> is within the signed
  64-bit range, the handler returns that course with the question appended at the end of
  its quiz sequence, the store holds the course so updated under the id, and the course's
  title, description and instructor id are the old ones. If a course has it and the index
  is outside that range, the encoder raises and the store is left as it is.
\<close>

theorem add_quiz_appends_int64:
  assumes oid: "PyObjectId_validate cid = Inr oid"
  shows "((\<forall>c\<in>set (courses s). course_oid c \<noteq> oid) \<longrightarrow>
            add_quiz cid quiz s = (Inl (HTTPException 404 ''Course not found''), s)) \<and>
         (\<forall>c. find_one (\<lambda>c. course_oid c = oid) (courses s) = Some c \<longrightarrow>
            bson_int (correct_option_index quiz) \<longrightarrow>
            fst (add_quiz cid quiz s) = Inr (c\<lparr>quizzes := quizzes c @ [quiz]\<rparr>) \<and>
            find_one (\<lambda>c. course_oid c = oid) (courses (snd (add_quiz cid quiz s)))
              = Some (c\<lparr>quizzes := quizzes c @ [quiz]\<rparr>) \<and>
            title (c\<lparr>quizzes := quizzes c @ [quiz]\<rparr>) = title c \<and>
            description (c\<lparr>quizzes := quizzes c @ [quiz]\<rparr>) = description c \<and>
            instructor_id (c\<lparr>quizzes := quizzes c @ [quiz]\<rparr>) = instructor_id c) \<and>
         (\<forall>c. find_one (\<lambda>c. course_oid c = oid) (courses s) = Some c \<longrightarrow>
            \<not> bson_int (correct_option_index quiz) \<longrightarrow>
            add_quiz cid quiz s = (Inl bson_overflow, s))"
proof (intro conjI allI impI)
  assume "\<forall>c\<in>set (courses s). course_oid c \<noteq> oid"
  then have "find_one (\<lambda>c. course_oid c = oid) (courses s) = None"
    by (simp add: find_one_None_iff)
  with oid show "add_quiz cid quiz s = (Inl (HTTPException 404 ''Course not found''), s)"
    by (simp add: add_quiz_def)
next
  fix c assume c: "find_one (\<lambda>c. course_oid c = oid) (courses s) = Some c"
    and rng: "bson_int (correct_option_index quiz)"
  let ?f = "\<lambda>c. c\<lparr>quizzes := quizzes c @ [quiz]\<rparr>"
  have upd: "find_one (\<lambda>c. course_oid c = oid) (update_one (\<lambda>c. course_oid c = oid) ?f (courses s))
             = Some (?f c)"
    using c by (rule find_one_same_key_update) simp
  with oid c rng show "fst (add_quiz cid quiz s) = Inr (c\<lparr>quizzes := quizzes c @ [quiz]\<rparr>)"
    by (simp add: add_quiz_def Let_def)
  from upd oid c rng show "find_one (\<lambda>c. course_oid c = oid) (courses (snd (add_quiz cid quiz s)))
              = Some (c\<lparr>quizzes := quizzes c @ [quiz]\<rparr>)"
    by (simp add: add_quiz_def Let_def)
next
  fix c assume "find_one (\<lambda>c. course_oid c = oid) (courses s) = Some c"
    and "\<not> bson_int (correct_option_index quiz)"
  with oid show "add_quiz cid quiz s = (Inl bson_overflow, s)"
    by (simp add: add_quiz_def)
qed simp_all

theorem add_quiz_appends_int64_witness:
  "PyObjectId_validate ''000000000000000000000002'' = Inr 2 \<and>
   PyObjectId_validate ''000000000000000000000009'' = Inr 9 \<and>
   bson_int (correct_option_index first_quiz) \<and>
   \<not> bson_int (correct_option_index wide_quiz) \<and>
   add_quiz ''000000000000000000000009'' first_quiz example_db
     = (Inl (HTTPException 404 ''Course not found''), example_db) \<and>
   fst (add_quiz ''000000000000000000000002'' first_quiz example_db)
     = Inr (logic_course\<lparr>quizzes := [first_quiz]\<rparr>) \<and>
   find_one (\<lambda>c. course_oid c = 2)
      (courses (snd (add_quiz ''000000000000000000000002'' first_quiz example_db)))
     = Some (logic_course\<lparr>quizzes := [first_quiz]\<rparr>) \<and>
   add_quiz ''000000000000000000000002'' wide_quiz example_db
     = (Inl bson_overflow, example_db)"
proof -
  have none: "\<forall>c\<in>set (courses example_db). course_oid c \<noteq> 9"
    by (simp add: example_defs)
  have some: "find_one (\<lambda>c. course_oid c = 2) (courses example_db) = Some logic_course"
    by (simp add: example_defs)
  have rng: "bson_int (correct_option_index first_quiz)"
    by (simp add: first_quiz_def bson_int_def)
  have wide: "\<not> bson_int (correct_option_index wide_quiz)"
    by (simp add: wide_quiz_def first_quiz_def bson_int_def)
  from add_quiz_appends_int64 [OF validate_9, of example_db first_quiz] none
  have a: "add_quiz ''000000000000000000000009'' first_quiz example_db
     = (Inl (HTTPException 404 ''Course not found''), example_db)"
    by blast
  from add_quiz_appends_int64 [OF validate_2, of example_db first_quiz] some rng
  have b: "fst (add_quiz ''000000000000000000000002'' first_quiz example_db)
       = Inr (logic_course\<lparr>quizzes := quizzes logic_course @ [first_quiz]\<rparr>) \<and>
     find_one (\<lambda>c. course_oid c = 2)
        (courses (snd (add_quiz ''000000000000000000000002'' first_quiz example_db)))
       = Some (logic_course\<lparr>quizzes := quizzes logic_course @ [first_quiz]\<rparr>)"
    by blast
  from add_quiz_appends_int64 [OF validate_2, of example_db wide_quiz] some wide
  have c: "add_quiz ''000000000000000000000002'' wide_quiz example_db
     = (Inl bson_overflow, example_db)"
    by blast
  have q: "quizzes logic_course = []" by (simp add: logic_course_def)
  from a b c q rng wide show ?thesis by (simp add: validate_2 validate_9)
qed

text \<open>
  The claim as it was stated, for whatever question is appended to an existing course,
  fails at a question whose \<open>correct_option_index\<close> is \<open>2 ^ 63\<close>: the course exists,
  the encoder raises, and the course's quiz sequence is what it was.
\<close>

theorem add_quiz_appends_counterexample:
  "PyObjectId_validate ''000000000000000000000002'' = Inr 2 \<and>
   courses example_db = [logic_course] \<and> course_oid logic_course = 2 \<and>
   correct_option_index wide_quiz = 9223372036854775808 \<and>
   add_quiz ''000000000000000000000002'' wide_quiz example_db
     = (Inl (OverflowError ''MongoDB can only handle up to 8-byte ints''), example_db)"
  by (simp add: add_quiz_def validate_2 example_defs wide_quiz_def first_quiz_def
      bson_int_def bson_overflow_def)

text \<open>
  Claim C7. Marking the assignment complete sets the flag and nothing else. For a progress
  record found by the handler's lookup, in a store whose progress ids are pairwise
  different, the handler succeeds; afterwards the lookup finds the same record with
  \<open>assignments_completed = True\<close>; every other progress record, the users, the courses
  and the id counter are unchanged; and marking it again gives the same outcome and store.
\<close>

theorem complete_assignment_sets_flag:
  assumes lp: "lookup_progress cid name s = Inr prog"
    and ids: "distinct (map progress_oid (progress s))"
  shows "fst (complete_assignment cid name s) = Inr ''Assignment marked complete'' \<and>
         lookup_progress cid name (snd (complete_assignment cid name s)) =
           Inr (prog\<lparr>assignments_completed := True\<rparr>) \<and>
         progress (snd (complete_assignment cid name s)) =
           map (\<lambda>p. if progress_oid p = progress_oid prog then p\<lparr>assignments_completed := True\<rparr>
                     else p) (progress s) \<and>
         users (snd (complete_assignment cid name s)) = users s \<and>
         courses (snd (complete_assignment cid name s)) = courses s \<and>
         next_id (snd (complete_assignment cid name s)) = next_id s \<and>
         complete_assignment cid name (snd (complete_assignment cid name s)) =
           complete_assignment cid name s"
proof -
  let ?q = "\<lambda>p. progress_oid p = progress_oid prog"
  let ?f = "\<lambda>p. p\<lparr>assignments_completed := True\<rparr>"
  let ?s' = "s\<lparr>progress := update_one ?q ?f (progress s)\<rparr>"
  from lp have first: "complete_assignment cid name s = (Inr ''Assignment marked complete'', ?s')"
    by (simp add: complete_assignment_def)
  have lp': "lookup_progress cid name ?s' = Inr (?f prog)"
    using lp ids by (rule lookup_progress_update) simp
  have "update_one ?q ?f (update_one ?q ?f (progress s)) = update_one ?q ?f (progress s)"
    by (rule update_one_idem) simp_all
  with lp' have second: "complete_assignment cid name ?s' = (Inr ''Assignment marked complete'', ?s')"
    by (simp add: complete_assignment_def)
  have "update_one ?q ?f (progress s) =
        map (\<lambda>p. if progress_oid p = progress_oid prog then ?f p else p) (progress s)"
    using ids by (rule update_one_distinct)
  with first second lp' show ?thesis by simp
qed

theorem complete_assignment_sets_flag_witness:
  "lookup_progress ''000000000000000000000002'' ''bob'' example_db = Inr bob_logic \<and>
   distinct (map progress_oid (progress example_db)) \<and>
   lookup_progress ''000000000000000000000002'' ''bob''
     (snd (complete_assignment ''000000000000000000000002'' ''bob'' example_db))
     = Inr (bob_logic\<lparr>assignments_completed := True\<rparr>) \<and>
   progress (snd (complete_assignment ''000000000000000000000002'' ''bob'' example_db))
     = [bob_logic\<lparr>assignments_completed := True\<rparr>]"
  using complete_assignment_sets_flag [OF lookup_progress_bob example_ids]
    lookup_progress_bob example_ids
  by (simp add: example_defs)

text \<open>
  Claim C8. Every failure is claimed to be an HTTP error response with a status code and a
  message, also for a \<open>course_id\<close> that is not a valid object id. For such a
  \<open>course_id\<close> each of the five handlers that take one raises the \<open>ValueError\<close> of
  \<open>PyObjectId.validate\<close> (the four that look a student up first, once the student is
  found), not an \<open>HTTPException\<close>.
\<close>

theorem invalid_course_id_raises_ValueError:
  "add_quiz ''not-an-object-id'' first_quiz example_db
     = (Inl (ValueError ''Invalid ObjectId''), example_db) \<and>
   enroll_student ''not-an-object-id'' \<lparr>student_username = ''bob''\<rparr> example_db
     = (Inl (ValueError ''Invalid ObjectId''), example_db) \<and>
   get_progress ''not-an-object-id'' ''bob'' example_db
     = (Inl (ValueError ''Invalid ObjectId''), example_db) \<and>
   complete_quiz ''not-an-object-id'' ''bob'' \<lparr>quiz_index = 0\<rparr> example_db
     = (Inl (ValueError ''Invalid ObjectId''), example_db) \<and>
   complete_assignment ''not-an-object-id'' ''bob'' example_db
     = (Inl (ValueError ''Invalid ObjectId''), example_db)"
  by (simp add: add_quiz_def enroll_student_def get_progress_def complete_quiz_def
      complete_assignment_def lookup_progress_def find_student_bob validate_bad)



text \<open>
  Claim C10, as amended. \<open>complete_quiz\<close> checks the quiz index against nothing in the
  course; the only bound is the store's integer width. For a progress record found by the
  handler's lookup, in a store whose progress ids are pairwise different and whose record
  holds only indices that fit, and whatever the courses collection holds: for every integer
  within the signed 64-bit range, negative or beyond the course's questions alike, the
  handler succeeds and the record found afterwards has the index among its completed
  quizzes; for every integer outside that range the encoder raises and the store is left
  as it is.
\<close>

theorem complete_quiz_no_bounds_check_int64:
  assumes lp: "lookup_progress cid name s = Inr prog"
    and ids: "distinct (map progress_oid (progress s))"
    and stored: "list_all bson_int (completed_quizzes prog)"
  shows "(bson_int i \<longrightarrow>
            fst (complete_quiz cid name \<lparr>quiz_index = i\<rparr> (s\<lparr>courses := cs\<rparr>))
              = Inr ''Quiz marked complete'' \<and>
            (\<exists>prog'. lookup_progress cid name
                        (snd (complete_quiz cid name \<lparr>quiz_index = i\<rparr> (s\<lparr>courses := cs\<rparr>)))
                        = Inr prog' \<and>
                      i \<in> set (completed_quizzes prog'))) \<and>
         (\<not> bson_int i \<longrightarrow>
            complete_quiz cid name \<lparr>quiz_index = i\<rparr> (s\<lparr>courses := cs\<rparr>)
              = (Inl bson_overflow, s\<lparr>courses := cs\<rparr>))"
proof -
  let ?s = "s\<lparr>courses := cs\<rparr>"
  let ?r = "\<lparr>quiz_index = i\<rparr>"
  have "lookup_progress cid name ?s = lookup_progress cid name s"
    by (rule lookup_progress_same) simp_all
  with lp have lp1: "lookup_progress cid name ?s = Inr prog"
    by simp
  have inside: "fst (complete_quiz cid name ?r ?s) = Inr ''Quiz marked complete'' \<and>
      (\<exists>prog'. lookup_progress cid name (snd (complete_quiz cid name ?r ?s)) = Inr prog' \<and>
                i \<in> set (completed_quizzes prog'))"
    if rng: "bson_int i"
  proof (cases "i \<in> set (completed_quizzes prog)")
    case True
    with lp1 have "complete_quiz cid name ?r ?s = (Inr ''Quiz marked complete'', ?s)"
      by (simp add: complete_quiz_def)
    with True lp1 show ?thesis by simp
  next
    case False
    let ?f = "\<lambda>p. p\<lparr>completed_quizzes := completed_quizzes prog @ [i]\<rparr>"
    let ?s' = "?s\<lparr>progress := update_one (\<lambda>p. progress_oid p = progress_oid prog) ?f (progress ?s)\<rparr>"
    from stored rng have fits: "list_all bson_int (completed_quizzes prog @ [i])"
      by simp
    from False lp1 fits
    have first: "complete_quiz cid name ?r ?s = (Inr ''Quiz marked complete'', ?s')"
      by (simp add: complete_quiz_def)
    from ids have ids1: "distinct (map progress_oid (progress ?s))" by simp
    have "lookup_progress cid name ?s' = Inr (?f prog)"
      using lp1 ids1 by (rule lookup_progress_update) simp
    with first show ?thesis by simp
  qed
  have outside: "complete_quiz cid name ?r ?s = (Inl bson_overflow, ?s)"
    if out: "\<not> bson_int i"
  proof -
    from stored out have "i \<notin> set (completed_quizzes prog)"
      by (auto simp: list_all_iff)
    with lp1 out show ?thesis
      by (simp add: complete_quiz_def)
  qed
  from inside outside show ?thesis by blast
qed

theorem complete_quiz_no_bounds_check_int64_witness:
  "lookup_progress ''000000000000000000000002'' ''bob'' example_db = Inr bob_logic \<and>
   distinct (map progress_oid (progress example_db)) \<and>
   list_all bson_int (completed_quizzes bob_logic) \<and>
   quizzes logic_course = [] \<and>
   bson_int (- 1) \<and> bson_int 7 \<and> bson_int 9223372036854775807 \<and>
   \<not> bson_int (- 9223372036854775809) \<and>
   fst (complete_quiz ''000000000000000000000002'' ''bob'' \<lparr>quiz_index = - 1\<rparr>
         (example_db\<lparr>courses := [logic_course]\<rparr>)) = Inr ''Quiz marked complete'' \<and>
   fst (complete_quiz ''000000000000000000000002'' ''bob'' \<lparr>quiz_index = 7\<rparr>
         (example_db\<lparr>courses := [logic_course]\<rparr>)) = Inr ''Quiz marked complete'' \<and>
   fst (complete_quiz ''000000000000000000000002'' ''bob'' \<lparr>quiz_index = 9223372036854775807\<rparr>
         (example_db\<lparr>courses := [logic_course]\<rparr>)) = Inr ''Quiz marked complete'' \<and>
   complete_quiz ''000000000000000000000002'' ''bob'' \<lparr>quiz_index = - 9223372036854775809\<rparr>
         (example_db\<lparr>courses := [logic_course]\<rparr>)
     = (Inl bson_overflow, example_db\<lparr>courses := [logic_course]\<rparr>)"
proof -
  have stored: "list_all bson_int (completed_quizzes bob_logic)"
    by (simp add: bob_logic_def)
  have r1: "bson_int (- 1)" and r2: "bson_int 7" and r3: "bson_int 9223372036854775807"
    and r4: "\<not> bson_int (- 9223372036854775809)"
    by (simp_all add: bson_int_def)
  note inst = complete_quiz_no_bounds_check_int64 [OF lookup_progress_bob example_ids stored]
  from inst [of "- 1" "[logic_course]"] r1
  have a: "fst (complete_quiz ''000000000000000000000002'' ''bob'' \<lparr>quiz_index = - 1\<rparr>
         (example_db\<lparr>courses := [logic_course]\<rparr>)) = Inr ''Quiz marked complete''"
    by blast
  from inst [of 7 "[logic_course]"] r2
  have b: "fst (complete_quiz ''000000000000000000000002'' ''bob'' \<lparr>quiz_index = 7\<rparr>
         (example_db\<lparr>courses := [logic_course]\<rparr>)) = Inr ''Quiz marked complete''"
    by blast
  from inst [of 9223372036854775807 "[logic_course]"] r3
  have c: "fst (complete_quiz ''000000000000000000000002'' ''bob''
         \<lparr>quiz_index = 9223372036854775807\<rparr>
         (example_db\<lparr>courses := [logic_course]\<rparr>)) = Inr ''Quiz marked complete''"
    by blast
  from inst [of "- 9223372036854775809" "[logic_course]"] r4
  have d: "complete_quiz ''000000000000000000000002'' ''bob''
         \<lparr>quiz_index = - 9223372036854775809\<rparr> (example_db\<lparr>courses := [logic_course]\<rparr>)
     = (Inl bson_overflow, example_db\<lparr>courses := [logic_course]\<rparr>)"
    by blast
  from a b c d r1 r2 r3 r4 stored lookup_progress_bob example_ids
  show ?thesis by (simp add: logic_course_def)
qed

text \<open>
  The claim as it was stated, for every integer, fails at the index \<open>2 ^ 63\<close>: the
  progress record exists, yet the handler does not succeed and the store is unchanged.
\<close>

theorem complete_quiz_no_bounds_check_counterexample:
  "lookup_progress ''000000000000000000000002'' ''bob'' example_db = Inr bob_logic \<and>
   complete_quiz ''000000000000000000000002'' ''bob''
       \<lparr>quiz_index = 9223372036854775808\<rparr> example_db
     = (Inl (OverflowError ''MongoDB can only handle up to 8-byte ints''), example_db)"
  by (simp add: complete_quiz_def lookup_progress_bob bob_logic_def bson_int_def
      bson_overflow_def)

section \<open>Registration, where the flag is a boolean\<close>

text \<open>
  A request with a taken username is rejected with the 400 error and the store is left as
  it is.
\<close>

theorem create_user_rejects_duplicate:
  "(\<exists>d\<in>set (users s). username d = req_username user) \<Longrightarrow>
   create_user user s = (Inl (HTTPException 400 ''Username already exists''), s)"
proof -
  assume "\<exists>d\<in>set (users s). username d = req_username user"
  then have "find_one (\<lambda>d. username d = req_username user) (users s) \<noteq> None"
    by (simp add: find_one_None_iff)
  then show ?thesis
    by (auto simp: create_user_def)
qed

theorem create_user_rejects_duplicate_witness:
  "(\<exists>d\<in>set (users example_db). username d = ''bob'') \<and>
   create_user \<lparr>req_username = ''bob'', req_is_instructor = Some True\<rparr> example_db
     = (Inl (HTTPException 400 ''Username already exists''), example_db)"
proof -
  have h: "\<exists>d\<in>set (users example_db).
      username d = req_username \<lparr>req_username = ''bob'', req_is_instructor = Some True\<rparr>"
    by (simp add: example_defs)
  from create_user_rejects_duplicate [OF h] h show ?thesis by simp
qed

text \<open>
  A request with a free username appends exactly one user document with that username and
  the requested flag; when the flag is a boolean, the handler returns the user.
\<close>

theorem create_user_inserts_one:
  "(\<forall>d\<in>set (users s). username d \<noteq> req_username user) \<Longrightarrow>
   snd (create_user user s) =
     s\<lparr>users := users s @ [\<lparr>user_oid = next_id s, username = req_username user,
                              is_instructor = req_is_instructor user\<rparr>],
       next_id := Suc (next_id s)\<rparr> \<and>
   (\<forall>b. req_is_instructor user = Some b \<longrightarrow>
      fst (create_user user s) =
        Inr \<lparr>User_id = next_id s, User_username = req_username user, User_is_instructor = b\<rparr>)"
proof -
  assume "\<forall>d\<in>set (users s). username d \<noteq> req_username user"
  then have "find_one (\<lambda>d. username d = req_username user) (users s) = None"
    by (simp add: find_one_None_iff)
  then show ?thesis
    by (simp add: create_user_def User_of_doc_def Let_def)
qed

theorem create_user_inserts_one_witness:
  "(\<forall>d\<in>set (users example_db). username d \<noteq> ''dan'') \<and>
   create_user \<lparr>req_username = ''dan'', req_is_instructor = Some False\<rparr> example_db =
     (Inr \<lparr>User_id = 4, User_username = ''dan'', User_is_instructor = False\<rparr>,
      example_db\<lparr>users := [ada, bob, \<lparr>user_oid = 4, username = ''dan'',
                                       is_instructor = Some False\<rparr>],
                 next_id := 5\<rparr>)"
proof -
  let ?u = "\<lparr>req_username = ''dan'', req_is_instructor = Some False\<rparr>"
  have h: "\<forall>d\<in>set (users example_db). username d \<noteq> req_username ?u"
    by (simp add: example_defs)
  have e: "next_id example_db = 4 \<and> users example_db = [ada, bob]"
    by (simp add: example_defs)
  from create_user_inserts_one [OF h]
  have s: "snd (create_user ?u example_db) =
       example_db\<lparr>users := users example_db @ [\<lparr>user_oid = next_id example_db,
            username = req_username ?u, is_instructor = req_is_instructor ?u\<rparr>],
         next_id := Suc (next_id example_db)\<rparr>"
    by (rule conjunct1)
  from create_user_inserts_one [OF h]
  have "\<forall>b. req_is_instructor ?u = Some b \<longrightarrow>
      fst (create_user ?u example_db) =
        Inr \<lparr>User_id = next_id example_db, User_username = req_username ?u,
             User_is_instructor = b\<rparr>"
    by (rule conjunct2)
  then have "req_is_instructor ?u = Some False \<longrightarrow>
      fst (create_user ?u example_db) =
        Inr \<lparr>User_id = next_id example_db, User_username = req_username ?u,
             User_is_instructor = False\<rparr>"
    by (rule spec)
  then have f: "fst (create_user ?u example_db) =
        Inr \<lparr>User_id = next_id example_db, User_username = req_username ?u,
             User_is_instructor = False\<rparr>"
    by simp
  from s f e have "create_user ?u example_db =
     (Inr \<lparr>User_id = 4, User_username = ''dan'', User_is_instructor = False\<rparr>,
      example_db\<lparr>users := [ada, bob, \<lparr>user_oid = 4, username = ''dan'',
                                       is_instructor = Some False\<rparr>],
                 next_id := 5\<rparr>)"
    by (simp add: prod_eq_iff)
  with h show ?thesis by simp
qed

end
